theory Spec2Isabelle
  imports Main "HOL-Library.Word"
begin

unbundle bit_operations_syntax

section \<open>Codec: hexadecimal rendering\<close>

text \<open>
  \<^verbatim>\<open>stream << std::hex << value\<close> renders an unsigned value in base 16 with the digits
  \<^verbatim>\<open>0123456789abcdef\<close>, no leading zeros, and the single digit \<^verbatim>\<open>0\<close> for zero.
\<close>

definition hex_digit :: "nat \<Rightarrow> char" where
  "hex_digit d = ''0123456789abcdef'' ! d"

fun to_hex :: "nat \<Rightarrow> string" where
  "to_hex n = (if n < 16 then [hex_digit n] else to_hex (n div 16) @ [hex_digit (n mod 16)])"

declare to_hex.simps [simp del]

text \<open>\<^verbatim>\<open>size_t\<close> on the ESP32 (the file is compiled under \<^verbatim>\<open>USE_ESP32\<close> only) has 32 bits.\<close>

type_synonym size_t = "32 word"

text \<open>
  \<^verbatim>\<open>MotionBlindsCommunication::format_hex_num(size_t value, bool prefix)\<close>, with the
  source's nesting of the conditions kept.
\<close>

definition format_hex_num :: "size_t \<Rightarrow> bool \<Rightarrow> string" where
  "format_hex_num val prefix =
     (let str1 = to_hex (unat val);
          len = length str1
      in if (len = 1 \<and> \<not> prefix) \<or> len = 3 then ''0'' @ str1
         else if len \<noteq> 1 then
                (if len = 2 then (if prefix then ''00'' @ str1 else str1) else str1)
              else ''000'' @ str1)"

text \<open>
  Reading a string back as a hexadecimal number (both letter cases accepted, as
  \<^verbatim>\<open>strtoul(s, nullptr, 16)\<close> does); \<open>None\<close> for the empty string and for a string
  with a character that is no hexadecimal digit. The source has no parser: this is the
  reading that the round-trip property of the specification speaks about.
\<close>

definition hex_val :: "char \<Rightarrow> nat option" where
  "hex_val c =
     (let k = of_char c :: nat
      in if 48 \<le> k \<and> k \<le> 57 then Some (k - 48)
         else if 97 \<le> k \<and> k \<le> 102 then Some (k - 87)
         else if 65 \<le> k \<and> k \<le> 70 then Some (k - 55)
         else None)"

fun parse_hex_from :: "nat \<Rightarrow> string \<Rightarrow> nat option" where
  "parse_hex_from acc [] = Some acc"
| "parse_hex_from acc (c # cs) =
     (case hex_val c of None \<Rightarrow> None | Some d \<Rightarrow> parse_hex_from (16 * acc + d) cs)"

definition parse_hex :: "string \<Rightarrow> nat option" where
  "parse_hex s = (if s = [] then None else parse_hex_from 0 s)"

definition is_hex_string :: "string \<Rightarrow> bool" where
  "is_hex_string s = list_all (\<lambda>c. hex_val c \<noteq> None) s"

text \<open>\<open>substr s pos n\<close> is \<^verbatim>\<open>s.substr(pos, n)\<close>, used to name the fields of a command.\<close>

definition substr :: "string \<Rightarrow> nat \<Rightarrow> nat \<Rightarrow> string" where
  "substr s pos n = take n (drop pos s)"

section \<open>Command builder\<close>

definition COMMAND_USER_QUERY :: string where
  "COMMAND_USER_QUERY = ''02C005''"

definition COMMAND_SET_USER_KEY :: string where
  "COMMAND_SET_USER_KEY = ''02C001''"

definition COMMAND_SET_TIME :: string where
  "COMMAND_SET_TIME = ''09A001''"

definition NOTIFY_MESSAGE_PHONE_USER :: string where
  "NOTIFY_MESSAGE_PHONE_USER = ''0cc0060505''"

definition WANTED_MTU :: nat where
  "WANTED_MTU = 512"

text \<open>
  Modelled from the spec: the declaration of \<^verbatim>\<open>time::ESPTime\<close> is not part of the source
  file; section 6 of the specification lists the fields that the clock provider returns,
  and the source reads exactly these. The fields are natural numbers here, and the
  theorems say which ranges they need.
\<close>

record ESPTime =
  second :: nat
  minute :: nat
  hour :: nat
  day_of_week :: nat
  day_of_month :: nat
  month :: nat
  year :: nat

text \<open>
  \<^verbatim>\<open>append_time_string\<close>: the text it appends to the buffer. \<open>tv_usec\<close> is the
  microsecond field that \<^verbatim>\<open>gettimeofday\<close> returns, read independently of \<open>local\<close>.
\<close>

definition append_time_string :: "ESPTime \<Rightarrow> nat \<Rightarrow> string" where
  "append_time_string local tv_usec =
     (let year' = format_hex_num (of_nat (year local mod 100)) False;
          month' = format_hex_num (of_nat (month local)) False;
          day' = format_hex_num (of_nat (day_of_month local)) False;
          hour' = format_hex_num (of_nat (hour local)) False;
          minute' = format_hex_num (of_nat (minute local)) False;
          seconds' = format_hex_num (of_nat (second local)) False;
          milliseconds' = format_hex_num (of_nat (tv_usec div 1000)) True
      in year' @ month' @ day' @ hour' @ minute' @ seconds' @ milliseconds')"

definition make_raw_command :: "string \<Rightarrow> ESPTime \<Rightarrow> nat \<Rightarrow> string" where
  "make_raw_command command local tv_usec = command @ append_time_string local tv_usec"

text \<open>
  \<^verbatim>\<open>format_week_day(int day)\<close>: the subtraction is done on \<^verbatim>\<open>int\<close> and the result is
  converted to \<^verbatim>\<open>size_t\<close> at the call, so that a day of 0 wraps around.
\<close>

definition format_week_day :: "int \<Rightarrow> string" where
  "format_week_day day = format_hex_num (word_of_int (day - 1)) False"

definition append_set_time_string :: "ESPTime \<Rightarrow> string" where
  "append_set_time_string local =
     (let year' = format_hex_num (of_nat (year local mod 100)) False;
          week_day' = format_week_day (int (day_of_week local));
          hour' = format_hex_num (of_nat (hour local)) False;
          minute' = format_hex_num (of_nat (minute local)) False;
          seconds' = format_hex_num (of_nat (second local)) False;
          month' = format_hex_num (of_nat (month local)) False;
          day' = format_hex_num (of_nat (day_of_month local)) False
      in week_day' @ hour' @ minute' @ seconds' @ year' @ month' @ day')"

text \<open>
  The buffer that \<^verbatim>\<open>send_set_time_\<close> builds before it calls \<^verbatim>\<open>send_command\<close>: the
  set-time command of the specification.
\<close>

definition set_time_buffer :: "ESPTime \<Rightarrow> string" where
  "set_time_buffer local = COMMAND_SET_TIME @ append_set_time_string local"

section \<open>Protocol state machine\<close>

type_synonym byte = "8 word"
type_synonym handle_t = "16 word"

text \<open>
  Modelled from the spec: the declaration of \<^verbatim>\<open>espbt::ClientState\<close> is not part of the
  source file, which names \<^verbatim>\<open>IDLE\<close> and \<^verbatim>\<open>ESTABLISHED\<close> only; the other states are
  those of section 4.3 of the specification, whose \<open>Ready\<close> is \<^verbatim>\<open>ESTABLISHED\<close>.
\<close>

datatype ClientState =
  IDLE | CONNECTING | DISCOVERING | NEGOTIATING_MTU | AUTHENTICATING | SYNCING_TIME | ESTABLISHED

text \<open>
  \<^verbatim>\<open>message_\<close>: the encrypted bytes (\<^verbatim>\<open>length\<close> is the length of the list) and the
  plaintext of the command as the caller gave it.
\<close>

record Message =
  bytes :: "byte list"
  raw_command :: string

text \<open>
  The members of \<^verbatim>\<open>MotionBlindsCommunication\<close> that the callbacks read and write. A name
  cannot end in an underscore here, so \<^verbatim>\<open>write_char_handle_\<close> is \<open>write_char_handle\<close>,
  and so on.
\<close>

record session =
  write_char_handle :: handle_t
  notify_char_handle :: handle_t
  has_mtu_change :: bool
  message :: Message
  node_state :: ClientState

text \<open>
  The constructor; \<^verbatim>\<open>message_\<close> is default-constructed and the base class starts in
  \<^verbatim>\<open>IDLE\<close>.
\<close>

definition init_session :: session where
  "init_session =
     \<lparr>write_char_handle = 0, notify_char_handle = 0, has_mtu_change = False,
      message = \<lparr>bytes = [], raw_command = []\<rparr>, node_state = IDLE\<rparr>"

text \<open>
  What \<^verbatim>\<open>parent_->get_characteristic\<close> returns when it finds the characteristic: its
  handle, its property bits, and the handle of the descriptor that
  \<^verbatim>\<open>get_descriptor(MOTION_BLINDS_NOTIFY_DESCRIPTOR)\<close> finds (\<open>None\<close> for \<^verbatim>\<open>nullptr\<close>).
\<close>

record BLECharacteristic =
  handle :: handle_t
  properties :: byte
  notify_descriptor :: "handle_t option"

definition ESP_GATT_CHAR_PROP_BIT_NOTIFY :: byte where
  "ESP_GATT_CHAR_PROP_BIT_NOTIFY = 0x10"

text \<open>
  Everything a callback reads from its collaborators: the cipher (\<^verbatim>\<open>Crypto\<close>, an opaque
  pair of functions), the clock (\<^verbatim>\<open>time_->now()\<close> is read at most twice in one callback:
  by \<^verbatim>\<open>send_set_time_\<close>, then by \<^verbatim>\<open>send_command\<close>), the microseconds of
  \<^verbatim>\<open>gettimeofday\<close>, and the two characteristic lookups of the transport. \<^verbatim>\<open>time_\<close> is
  taken to be set: the component is configured with a clock before any event arrives.
\<close>

record env =
  crypto_encrypt :: "string \<Rightarrow> byte list"
  crypto_decrypt :: "byte list \<Rightarrow> string"
  time_now :: ESPTime
  time_now_again :: ESPTime
  gettimeofday_usec :: nat
  get_notify_chara :: "BLECharacteristic option"
  get_write_chara :: "BLECharacteristic option"

text \<open>
  The calls the component makes on the transport and on its two callbacks, in the order
  it makes them. Log lines are left out: the status codes of the transport calls feed
  nothing else.
\<close>

datatype effect =
    ParentConnect
  | ParentDisconnect
  | GattcRegisterForNotify handle_t
  | GattcWriteCharDescr handle_t "byte list"
  | GattSetLocalMtu nat
  | GattcSendMtuReq
  | GattcWriteChar handle_t "byte list"
  | OnNotify string
  | OnDisconnected

datatype error = NullPointer

datatype gattc_event =
    ESP_GATTC_OPEN_EVT
  | ESP_GATTC_DISCONNECT_EVT nat
  | ESP_GATTC_SEARCH_CMPL_EVT
  | ESP_GATTC_REG_FOR_NOTIFY_EVT
  | ESP_GATTC_NOTIFY_EVT handle_t "byte list"
  | ESP_GATTC_CFG_MTU_EVT "16 word"
  | ESP_GATTC_WRITE_CHAR_EVT
  | ESP_GATTC_OTHER_EVT

text \<open>\<^verbatim>\<open>connect()\<close>; the argument is what \<^verbatim>\<open>parent_->connected()\<close> returns.\<close>

definition connect :: "bool \<Rightarrow> session \<Rightarrow> session \<times> effect list" where
  "connect parent_connected s = (if parent_connected then (s, []) else (s, [ParentConnect]))"

definition disconnect :: "session \<Rightarrow> session \<times> effect list" where
  "disconnect s = (s\<lparr>node_state := IDLE\<rparr>, [ParentDisconnect])"

text \<open>
  \<^verbatim>\<open>send_command\<close>; \<open>local\<close> is its reading of \<^verbatim>\<open>time_->now()\<close>. The result of the
  \<^verbatim>\<open>Crypto::decrypt\<close> call in its body is not used.
\<close>

definition send_command :: "env \<Rightarrow> ESPTime \<Rightarrow> session \<Rightarrow> string \<Rightarrow> session \<times> effect list" where
  "send_command w local s command =
     (let raw_command' = make_raw_command command local (gettimeofday_usec w);
          encrypted = crypto_encrypt w raw_command';
          s' = s\<lparr>message := \<lparr>bytes = encrypted, raw_command = command\<rparr>\<rparr>
      in (s', [GattcWriteChar (write_char_handle s) encrypted]))"

definition send_set_time :: "env \<Rightarrow> session \<Rightarrow> session \<times> effect list" where
  "send_set_time w s = send_command w (time_now_again w) s (set_time_buffer (time_now w))"

text \<open>
  \<^verbatim>\<open>std::string::find\<close>: the first position at which the pattern occurs, \<open>None\<close> for
  \<^verbatim>\<open>npos\<close>.
\<close>

fun str_find :: "string \<Rightarrow> string \<Rightarrow> nat option" where
  "str_find [] pat = (if pat = [] then Some 0 else None)"
| "str_find (c # cs) pat =
     (if take (length pat) (c # cs) = pat then Some 0 else map_option Suc (str_find cs pat))"

text \<open>A string begins with a pattern.\<close>

definition starts_with :: "string \<Rightarrow> string \<Rightarrow> bool" where
  "starts_with s pat = (take (length pat) s = pat)"

definition decode_value :: "env \<Rightarrow> byte list \<Rightarrow> string" where
  "decode_value w data = crypto_decrypt w data"

text \<open>The \<^verbatim>\<open>ESP_GATTC_SEARCH_CMPL_EVT\<close> case, in its two halves.\<close>

definition search_cmpl_notify :: "env \<Rightarrow> session \<Rightarrow> error + session \<times> effect list" where
  "search_cmpl_notify w s =
     (case get_notify_chara w of
        None \<Rightarrow> Inr (s, [])
      | Some notify_chara \<Rightarrow>
          (case notify_descriptor notify_chara of
             None \<Rightarrow> Inl NullPointer
           | Some descr \<Rightarrow>
               Inr (s\<lparr>notify_char_handle := handle notify_chara\<rparr>,
                    [GattcRegisterForNotify (handle notify_chara),
                     GattcWriteCharDescr descr [1, 0]])))"

definition search_cmpl_write :: "env \<Rightarrow> session \<Rightarrow> session \<times> effect list" where
  "search_cmpl_write w s =
     (case get_write_chara w of
        None \<Rightarrow> (s, [])
      | Some write_chara \<Rightarrow>
          (s\<lparr>write_char_handle := handle write_chara\<rparr>,
           if properties write_chara AND ESP_GATT_CHAR_PROP_BIT_NOTIFY \<noteq> 0
           then [GattcRegisterForNotify (handle write_chara)] else []))"

fun gattc_event_handler :: "env \<Rightarrow> gattc_event \<Rightarrow> session \<Rightarrow> error + session \<times> effect list" where
  "gattc_event_handler w ESP_GATTC_OPEN_EVT s = Inr (s, [])"
| "gattc_event_handler w (ESP_GATTC_DISCONNECT_EVT reason) s =
     Inr (s\<lparr>has_mtu_change := False, node_state := IDLE, write_char_handle := 0\<rparr>,
          [OnDisconnected])"
| "gattc_event_handler w ESP_GATTC_SEARCH_CMPL_EVT s =
     (case search_cmpl_notify w s of
        Inl e \<Rightarrow> Inl e
      | Inr (s1, fx1) \<Rightarrow>
          (case search_cmpl_write w s1 of (s2, fx2) \<Rightarrow> Inr (s2, fx1 @ fx2)))"
| "gattc_event_handler w ESP_GATTC_REG_FOR_NOTIFY_EVT s =
     (if has_mtu_change s then Inr (send_command w (time_now w) s COMMAND_USER_QUERY)
      else Inr (s, [GattSetLocalMtu WANTED_MTU, GattcSendMtuReq]))"
| "gattc_event_handler w (ESP_GATTC_NOTIFY_EVT h data) s =
     (if h \<noteq> notify_char_handle s then Inr (s, [])
      else let val = decode_value w data
           in if str_find val NOTIFY_MESSAGE_PHONE_USER = Some 0
              then Inr (send_command w (time_now w) s COMMAND_SET_USER_KEY)
              else Inr (s, [OnNotify val]))"
| "gattc_event_handler w (ESP_GATTC_CFG_MTU_EVT mtu) s =
     (if unat mtu = WANTED_MTU
      then (let s1 = s\<lparr>has_mtu_change := True\<rparr>
            in if write_char_handle s1 \<noteq> 0
               then Inr (send_command w (time_now w) s1 COMMAND_USER_QUERY)
               else Inr (s1, []))
      else Inr (s, []))"
| "gattc_event_handler w ESP_GATTC_WRITE_CHAR_EVT s =
     (if raw_command (message s) = COMMAND_SET_USER_KEY then Inr (send_set_time w s)
      else if str_find (raw_command (message s)) COMMAND_SET_TIME = Some 0
           then Inr (s\<lparr>node_state := ESTABLISHED\<rparr>, [])
           else Inr (s, []))"
| "gattc_event_handler w ESP_GATTC_OTHER_EVT s = Inr (s, [])"

subsection \<open>Runs and observations\<close>

text \<open>
  A run delivers events one at a time, each with what the collaborators answer during
  that callback. Its observation lists every event followed by the calls the callback
  made; a run stops at a callback that dereferences a null pointer.
\<close>

datatype obs = Event gattc_event | Call effect

fun observe :: "session \<Rightarrow> (env \<times> gattc_event) list \<Rightarrow> obs list" where
  "observe s [] = []"
| "observe s ((w, ev) # rest) =
     (case gattc_event_handler w ev s of
        Inl e \<Rightarrow> [Event ev]
      | Inr (s', fx) \<Rightarrow> Event ev # map Call fx @ observe s' rest)"

fun final_session :: "session \<Rightarrow> (env \<times> gattc_event) list \<Rightarrow> session option" where
  "final_session s [] = Some s"
| "final_session s ((w, ev) # rest) =
     (case gattc_event_handler w ev s of
        Inl e \<Rightarrow> None
      | Inr (s', fx) \<Rightarrow> final_session s' rest)"

fun is_write :: "effect \<Rightarrow> bool" where
  "is_write (GattcWriteChar h b) = True"
| "is_write _ = False"

text \<open>
  The single-outstanding-write discipline on an observation: \<open>in_flight\<close> says that a
  characteristic write has been issued and not yet acknowledged. An acknowledgement or a
  disconnect clears it; a write issued while it is set breaks the discipline.
\<close>

fun single_outstanding :: "bool \<Rightarrow> obs list \<Rightarrow> bool" where
  "single_outstanding in_flight [] = True"
| "single_outstanding in_flight (Event ESP_GATTC_WRITE_CHAR_EVT # rest) =
     single_outstanding False rest"
| "single_outstanding in_flight (Event (ESP_GATTC_DISCONNECT_EVT r) # rest) =
     single_outstanding False rest"
| "single_outstanding in_flight (Event ev # rest) = single_outstanding in_flight rest"
| "single_outstanding in_flight (Call (GattcWriteChar h b) # rest) =
     (\<not> in_flight \<and> single_outstanding True rest)"
| "single_outstanding in_flight (Call fx # rest) = single_outstanding in_flight rest"

subsection \<open>A test double for the collaborators\<close>

text \<open>
  The cipher is opaque to the component. For concrete runs it is replaced by the
  identity on bytes, the clock by the fixed time of the examples in section 8 of the
  specification (2024-03-15 13:07:42, weekday 3, millisecond 7), and the transport by one
  that finds both characteristics, the write characteristic with the notify property.
\<close>

definition plain_encrypt :: "string \<Rightarrow> byte list" where
  "plain_encrypt s = map (\<lambda>c. of_nat (of_char c)) s"

definition plain_decrypt :: "byte list \<Rightarrow> string" where
  "plain_decrypt bs = map (\<lambda>b. char_of (unat b)) bs"

definition example_time :: ESPTime where
  "example_time =
     \<lparr>second = 42, minute = 7, hour = 13, day_of_week = 3, day_of_month = 15, month = 3,
      year = 2024\<rparr>"

definition example_env :: env where
  "example_env =
     \<lparr>crypto_encrypt = plain_encrypt, crypto_decrypt = plain_decrypt,
      time_now = example_time, time_now_again = example_time, gettimeofday_usec = 7000,
      get_notify_chara = Some \<lparr>handle = 42, properties = 0x10, notify_descriptor = Some 43\<rparr>,
      get_write_chara = Some \<lparr>handle = 40, properties = 0x1C, notify_descriptor = None\<rparr>\<rparr>"

section \<open>Properties of the codec\<close>

subsection \<open>Hexadecimal rendering and its length\<close>

lemma to_hex_small: "n < 16 \<Longrightarrow> to_hex n = [hex_digit n]"
  by (simp add: to_hex.simps)

lemma to_hex_step: "16 \<le> n \<Longrightarrow> to_hex n = to_hex (n div 16) @ [hex_digit (n mod 16)]"
  by (subst to_hex.simps) simp

lemma length_to_hex_pos: "0 < length (to_hex n)"
  by (subst to_hex.simps) simp

lemma length_to_hex_1: "length (to_hex n) = Suc 0 \<longleftrightarrow> n < 16"
proof (cases "n < 16")
  case True
  then show ?thesis by (simp add: to_hex_small)
next
  case False
  then have "length (to_hex n) = Suc (length (to_hex (n div 16)))"
    by (simp add: to_hex_step)
  with False length_to_hex_pos [of "n div 16"] show ?thesis by simp
qed

lemma length_to_hex_Suc:
  "16 \<le> n \<Longrightarrow> length (to_hex n) = Suc (length (to_hex (n div 16)))"
  by (simp add: to_hex_step)

lemma length_to_hex_2: "length (to_hex n) = 2 \<longleftrightarrow> 16 \<le> n \<and> n < 256"
proof (cases "n < 16")
  case True
  then show ?thesis by (simp add: to_hex_small)
next
  case False
  then have "length (to_hex n) = 2 \<longleftrightarrow> length (to_hex (n div 16)) = Suc 0"
    by (simp add: length_to_hex_Suc)
  also have "\<dots> \<longleftrightarrow> n div 16 < 16" by (rule length_to_hex_1)
  also have "\<dots> \<longleftrightarrow> n < 256" by arith
  finally show ?thesis using False by simp
qed

lemma length_to_hex_3: "length (to_hex n) = 3 \<longleftrightarrow> 256 \<le> n \<and> n < 4096"
proof (cases "n < 16")
  case True
  then show ?thesis by (simp add: to_hex_small)
next
  case False
  then have "length (to_hex n) = 3 \<longleftrightarrow> length (to_hex (n div 16)) = 2"
    by (simp add: length_to_hex_Suc)
  also have "\<dots> \<longleftrightarrow> 16 \<le> n div 16 \<and> n div 16 < 256" by (rule length_to_hex_2)
  also have "\<dots> \<longleftrightarrow> 256 \<le> n \<and> n < 4096" by arith
  finally show ?thesis using False by simp
qed


lemma lt16_cases:
  "(d::nat) < 16 \<Longrightarrow> d \<in> {0, 1, 2, 3, 4, 5, 6, 7, 8, 9, 10, 11, 12, 13, 14, 15}"
  by simp presburger

lemma hex_val_hex_digit: "d < 16 \<Longrightarrow> hex_val (hex_digit d) = Some d"
proof -
  assume "d < 16"
  then have "d \<in> {0, 1, 2, 3, 4, 5, 6, 7, 8, 9, 10, 11, 12, 13, 14, 15}"
    by (rule lt16_cases)
  then show ?thesis
    by (auto simp add: hex_digit_def hex_val_def)
qed

lemma parse_hex_from_append:
  "parse_hex_from a (xs @ ys) =
     (case parse_hex_from a xs of None \<Rightarrow> None | Some b \<Rightarrow> parse_hex_from b ys)"
  by (induction xs arbitrary: a) (auto split: option.splits)

lemma parse_hex_from_to_hex: "parse_hex_from a (to_hex n) = Some (a * 16 ^ length (to_hex n) + n)"
proof (induction n arbitrary: a rule: to_hex.induct)
  case (1 n)
  show ?case
  proof (cases "n < 16")
    case True
    then show ?thesis by (simp add: to_hex_small hex_val_hex_digit)
  next
    case False
    then have step: "to_hex n = to_hex (n div 16) @ [hex_digit (n mod 16)]"
      by (simp add: to_hex_step)
    have "parse_hex_from a (to_hex (n div 16)) =
            Some (a * 16 ^ length (to_hex (n div 16)) + n div 16)"
      using False by (rule "1.IH")
    then show ?thesis
      by (simp add: step parse_hex_from_append hex_val_hex_digit algebra_simps)
  qed
qed

lemma to_hex_not_Nil: "to_hex n \<noteq> []"
  using length_to_hex_pos [of n] by auto

lemma parse_hex_to_hex: "parse_hex (to_hex n) = Some n"
  by (simp add: parse_hex_def to_hex_not_Nil parse_hex_from_to_hex)

lemma hex_val_zero: "hex_val CHR ''0'' = Some 0"
  by (simp add: hex_val_def)

lemma parse_hex_zeros:
  "parse_hex (CHR ''0'' # s) = (if s = [] then Some 0 else parse_hex s)"
  by (simp add: parse_hex_def hex_val_zero)

lemma is_hex_string_to_hex: "is_hex_string (to_hex n)"
proof (induction n rule: to_hex.induct)
  case (1 n)
  show ?case
  proof (cases "n < 16")
    case True
    then show ?thesis by (simp add: to_hex_small is_hex_string_def hex_val_hex_digit)
  next
    case False
    with "1.IH" show ?thesis
      by (simp add: to_hex_step is_hex_string_def hex_val_hex_digit)
  qed
qed

lemma is_hex_string_append: "is_hex_string (xs @ ys) \<longleftrightarrow> is_hex_string xs \<and> is_hex_string ys"
  by (simp add: is_hex_string_def)

lemma parse_hex_format_hex_num: "parse_hex (format_hex_num v p) = Some (unat v)"
  by (simp add: format_hex_num_def Let_def parse_hex_zeros to_hex_not_Nil parse_hex_to_hex)

lemma is_hex_string_format_hex_num: "is_hex_string (format_hex_num v p)"
  using is_hex_string_to_hex [of "unat v"]
  by (simp add: format_hex_num_def Let_def is_hex_string_def hex_val_zero)

lemma format_hex_num_table:
  "format_hex_num v p =
     (let d = to_hex (unat v)
      in if unat v < 16 then (if p then ''000'' @ d else ''0'' @ d)
         else if unat v < 256 then (if p then ''00'' @ d else d)
         else if unat v < 4096 then ''0'' @ d
         else d)"
proof -
  let ?n = "unat v"
  consider "?n < 16" | "16 \<le> ?n \<and> ?n < 256" | "256 \<le> ?n \<and> ?n < 4096" | "4096 \<le> ?n"
    by linarith
  then show ?thesis
  proof cases
    case 1
    then have "length (to_hex ?n) = Suc 0" by (simp add: length_to_hex_1)
    with 1 show ?thesis by (simp add: format_hex_num_def Let_def)
  next
    case 2
    then have "length (to_hex ?n) = 2" by (simp add: length_to_hex_2)
    with 2 show ?thesis by (simp add: format_hex_num_def Let_def)
  next
    case 3
    then have "length (to_hex ?n) = 3" by (simp add: length_to_hex_3)
    with 3 show ?thesis by (simp add: format_hex_num_def Let_def)
  next
    case 4
    then have "length (to_hex ?n) \<noteq> Suc 0" "length (to_hex ?n) \<noteq> 2" "length (to_hex ?n) \<noteq> 3"
      by (simp_all add: length_to_hex_1 length_to_hex_2 length_to_hex_3)
    with 4 show ?thesis by (simp add: format_hex_num_def Let_def)
  qed
qed

lemma length_format_hex_num_False:
  "unat v < 256 \<Longrightarrow> length (format_hex_num v False) = 2"
proof -
  assume a: "unat v < 256"
  show ?thesis
  proof (cases "unat v < 16")
    case True
    then have "length (to_hex (unat v)) = Suc 0" by (simp add: length_to_hex_1)
    with True show ?thesis by (simp add: format_hex_num_table Let_def)
  next
    case False
    with a have "length (to_hex (unat v)) = 2" by (simp add: length_to_hex_2)
    with False a show ?thesis by (simp add: format_hex_num_table Let_def)
  qed
qed

lemma length_format_hex_num_True:
  "unat v < 4096 \<Longrightarrow> length (format_hex_num v True) = 4"
proof -
  assume a: "unat v < 4096"
  consider "unat v < 16" | "16 \<le> unat v \<and> unat v < 256" | "256 \<le> unat v \<and> unat v < 4096"
    using a by linarith
  then show ?thesis
  proof cases
    case 1
    then have "length (to_hex (unat v)) = Suc 0" by (simp add: length_to_hex_1)
    with 1 show ?thesis by (simp add: format_hex_num_table Let_def)
  next
    case 2
    then have "length (to_hex (unat v)) = 2" by (simp add: length_to_hex_2)
    with 2 show ?thesis by (simp add: format_hex_num_table Let_def)
  next
    case 3
    then have "length (to_hex (unat v)) = 3" by (simp add: length_to_hex_3)
    with 3 show ?thesis by (simp add: format_hex_num_table Let_def)
  qed
qed

subsection \<open>Fields of a command\<close>

lemma unat_of_nat_size_t: "n < 4294967296 \<Longrightarrow> unat (of_nat n :: size_t) = n"
  by (simp add: unat_of_nat)

lemma length_field: "n < 256 \<Longrightarrow> length (format_hex_num (of_nat n) False) = 2"
  by (rule length_format_hex_num_False) (simp add: unat_of_nat_size_t)

lemma length_msec: "usec < 1000000 \<Longrightarrow> length (format_hex_num (of_nat (usec div 1000)) True) = 4"
proof -
  assume "usec < 1000000"
  then have "usec div 1000 < 1000" by simp
  then have "unat (of_nat (usec div 1000) :: size_t) < 4096"
    by (simp add: unat_of_nat_size_t)
  then show ?thesis by (rule length_format_hex_num_True)
qed

lemma parse_field: "n < 4294967296 \<Longrightarrow> parse_hex (format_hex_num (of_nat n) p) = Some n"
  by (simp add: parse_hex_format_hex_num unat_of_nat_size_t)

lemma fields7:
  assumes "length op = 6" "length a = 2" "length b = 2" "length c = 2" "length d = 2"
    "length e = 2" "length f = 2"
  shows "substr (op @ a @ b @ c @ d @ e @ f @ g) 0 6 = op"
    and "substr (op @ a @ b @ c @ d @ e @ f @ g) 6 2 = a"
    and "substr (op @ a @ b @ c @ d @ e @ f @ g) 8 2 = b"
    and "substr (op @ a @ b @ c @ d @ e @ f @ g) 10 2 = c"
    and "substr (op @ a @ b @ c @ d @ e @ f @ g) 12 2 = d"
    and "substr (op @ a @ b @ c @ d @ e @ f @ g) 14 2 = e"
    and "substr (op @ a @ b @ c @ d @ e @ f @ g) 16 2 = f"
    and "drop 18 (op @ a @ b @ c @ d @ e @ f @ g) = g"
  using assms by (simp_all add: substr_def)

subsection \<open>The padding table\<close>

text \<open>
  Claim C2, as the source has it. For every value of the argument type, the padding of
  \<open>format_hex_num\<close> depends on the number of hexadecimal digits of the value and on the
  flag: one digit without the flag gets one leading zero (two characters), one digit with
  the flag gets three leading zeros (four characters), two digits with the flag get two
  leading zeros (four characters), two digits without the flag stay as they are, three
  digits get one leading zero (four characters), and four digits stay as they are.
\<close>

theorem format_hex_num_padding:
  "(length (to_hex (unat v)) = 1 \<and> \<not> prefix \<longrightarrow>
      format_hex_num v prefix = ''0'' @ to_hex (unat v) \<and> length (format_hex_num v prefix) = 2) \<and>
   (length (to_hex (unat v)) = 1 \<and> prefix \<longrightarrow>
      format_hex_num v prefix = ''000'' @ to_hex (unat v) \<and> length (format_hex_num v prefix) = 4) \<and>
   (length (to_hex (unat v)) = 2 \<and> prefix \<longrightarrow>
      format_hex_num v prefix = ''00'' @ to_hex (unat v) \<and> length (format_hex_num v prefix) = 4) \<and>
   (length (to_hex (unat v)) = 2 \<and> \<not> prefix \<longrightarrow> format_hex_num v prefix = to_hex (unat v)) \<and>
   (length (to_hex (unat v)) = 3 \<longrightarrow>
      format_hex_num v prefix = ''0'' @ to_hex (unat v) \<and> length (format_hex_num v prefix) = 4) \<and>
   (length (to_hex (unat v)) = 4 \<longrightarrow> format_hex_num v prefix = to_hex (unat v))"
  by (simp add: format_hex_num_def Let_def)

text \<open>One value for each row of the table: 5, 42, 999 and 9999.\<close>

theorem format_hex_num_padding_witness:
  "length (to_hex (unat (5 :: size_t))) = 1 \<and>
   format_hex_num 5 False = ''05'' \<and> format_hex_num 5 True = ''0005'' \<and>
   length (to_hex (unat (42 :: size_t))) = 2 \<and>
   format_hex_num 42 True = ''002a'' \<and> format_hex_num 42 False = ''2a'' \<and>
   length (to_hex (unat (999 :: size_t))) = 3 \<and> format_hex_num 999 False = ''03e7'' \<and>
   length (to_hex (unat (9999 :: size_t))) = 4 \<and> format_hex_num 9999 True = ''270f''"
  using format_hex_num_padding [of 5 False] format_hex_num_padding [of 5 True]
    format_hex_num_padding [of 42 True] format_hex_num_padding [of 42 False]
    format_hex_num_padding [of 999 False] format_hex_num_padding [of 9999 True]
  by (simp add: to_hex.simps hex_digit_def)

text \<open>
  The table of the specification has the two one-digit rows the other way round (three
  leading zeros without the flag, one with it). At the value 5 the source does neither.
\<close>

theorem format_hex_num_one_digit_counterexample:
  "length (to_hex (unat (5 :: size_t))) = 1 \<and>
   format_hex_num 5 False \<noteq> ''000'' @ to_hex (unat (5 :: size_t)) \<and>
   length (format_hex_num 5 False) \<noteq> 4 \<and>
   format_hex_num 5 True \<noteq> ''0'' @ to_hex (unat (5 :: size_t)) \<and>
   length (format_hex_num 5 True) \<noteq> 2"
  by (simp add: format_hex_num_def to_hex.simps hex_digit_def)

subsection \<open>Round trip\<close>

text \<open>
  Claim C7. For every value from 0 to 9999 and either flag, reading the text that
  \<open>format_hex_num\<close> returns as a hexadecimal number gives the value back.
\<close>

theorem format_hex_num_roundtrip:
  "n \<le> 9999 \<Longrightarrow> parse_hex (format_hex_num (of_nat n) prefix) = Some n"
  by (simp add: parse_field)

theorem format_hex_num_roundtrip_witness:
  "(2024::nat) \<le> 9999 \<and> parse_hex (format_hex_num (of_nat 2024) True) = Some 2024"
  using format_hex_num_roundtrip [of 2024 True] by simp

section \<open>Properties of the command builder\<close>

subsection \<open>The query command\<close>

text \<open>
  Claim C3, as the source has it. For every local time whose month, day, hour, minute and
  second fit in eight bits (every calendar time does) and every microsecond reading below
  one million, the raw command built from the opcode \<^verbatim>\<open>02C005\<close> is the opcode followed
  by exactly 16 hexadecimal characters: year modulo 100, month, day, hour, minute and
  second in two characters each, rendered by \<open>format_hex_num\<close> without the flag, then the
  millisecond in four characters, rendered with the flag. Each field reads back as the
  number it encodes.
\<close>

theorem query_command_layout:
  assumes "month t < 256" and "day_of_month t < 256" and "hour t < 256"
    and "minute t < 256" and "second t < 256" and "usec < 1000000"
  shows "length (make_raw_command COMMAND_USER_QUERY t usec) = 6 + 16 \<and>
    is_hex_string (drop 6 (make_raw_command COMMAND_USER_QUERY t usec)) \<and>
    substr (make_raw_command COMMAND_USER_QUERY t usec) 0 6 = ''02C005'' \<and>
    substr (make_raw_command COMMAND_USER_QUERY t usec) 6 2 = format_hex_num (of_nat (year t mod 100)) False \<and>
    substr (make_raw_command COMMAND_USER_QUERY t usec) 8 2 = format_hex_num (of_nat (month t)) False \<and>
    substr (make_raw_command COMMAND_USER_QUERY t usec) 10 2 = format_hex_num (of_nat (day_of_month t)) False \<and>
    substr (make_raw_command COMMAND_USER_QUERY t usec) 12 2 = format_hex_num (of_nat (hour t)) False \<and>
    substr (make_raw_command COMMAND_USER_QUERY t usec) 14 2 = format_hex_num (of_nat (minute t)) False \<and>
    substr (make_raw_command COMMAND_USER_QUERY t usec) 16 2 = format_hex_num (of_nat (second t)) False \<and>
    substr (make_raw_command COMMAND_USER_QUERY t usec) 18 4 = format_hex_num (of_nat (usec div 1000)) True \<and>
    parse_hex (substr (make_raw_command COMMAND_USER_QUERY t usec) 6 2) = Some (year t mod 100) \<and>
    parse_hex (substr (make_raw_command COMMAND_USER_QUERY t usec) 8 2) = Some (month t) \<and>
    parse_hex (substr (make_raw_command COMMAND_USER_QUERY t usec) 10 2) = Some (day_of_month t) \<and>
    parse_hex (substr (make_raw_command COMMAND_USER_QUERY t usec) 12 2) = Some (hour t) \<and>
    parse_hex (substr (make_raw_command COMMAND_USER_QUERY t usec) 14 2) = Some (minute t) \<and>
    parse_hex (substr (make_raw_command COMMAND_USER_QUERY t usec) 16 2) = Some (second t) \<and>
    parse_hex (substr (make_raw_command COMMAND_USER_QUERY t usec) 18 4) = Some (usec div 1000)"
proof -
  let ?y = "format_hex_num (of_nat (year t mod 100)) False"
  let ?mo = "format_hex_num (of_nat (month t)) False"
  let ?d = "format_hex_num (of_nat (day_of_month t)) False"
  let ?h = "format_hex_num (of_nat (hour t)) False"
  let ?mi = "format_hex_num (of_nat (minute t)) False"
  let ?s = "format_hex_num (of_nat (second t)) False"
  let ?ms = "format_hex_num (of_nat (usec div 1000)) True"
  let ?cmd = "make_raw_command COMMAND_USER_QUERY t usec"
  have cmd: "?cmd = ''02C005'' @ ?y @ ?mo @ ?d @ ?h @ ?mi @ ?s @ ?ms"
    by (simp add: make_raw_command_def append_time_string_def COMMAND_USER_QUERY_def Let_def)
  have op: "length ''02C005'' = 6" by simp
  have y: "length ?y = 2" by (rule length_field) simp
  have mo: "length ?mo = 2" using assms(1) by (rule length_field)
  have d: "length ?d = 2" using assms(2) by (rule length_field)
  have h: "length ?h = 2" using assms(3) by (rule length_field)
  have mi: "length ?mi = 2" using assms(4) by (rule length_field)
  have s: "length ?s = 2" using assms(5) by (rule length_field)
  have ms: "length ?ms = 4" using assms(6) by (rule length_msec)
  note f = fields7 [OF op y mo d h mi s, of ?ms, folded cmd]
  have len: "length ?cmd = 6 + 16"
    unfolding cmd using y mo d h mi s ms by simp
  have hex: "is_hex_string (drop 6 ?cmd)"
    unfolding cmd by (simp add: is_hex_string_append is_hex_string_format_hex_num)
  have last: "substr ?cmd 18 4 = ?ms"
    using f(8) ms by (simp add: substr_def)
  have py: "parse_hex ?y = Some (year t mod 100)" by (rule parse_field) simp
  have pmo: "parse_hex ?mo = Some (month t)" using assms(1) by (intro parse_field) simp
  have pd: "parse_hex ?d = Some (day_of_month t)" using assms(2) by (intro parse_field) simp
  have ph: "parse_hex ?h = Some (hour t)" using assms(3) by (intro parse_field) simp
  have pmi: "parse_hex ?mi = Some (minute t)" using assms(4) by (intro parse_field) simp
  have ps: "parse_hex ?s = Some (second t)" using assms(5) by (intro parse_field) simp
  have pms: "parse_hex ?ms = Some (usec div 1000)" using assms(6) by (intro parse_field) simp
  show ?thesis
    using len hex f(1-7) last py pmo pd ph pmi ps pms by simp
qed

text \<open>The example of the specification: 2024-03-15 13:07:42, millisecond 7.\<close>

theorem query_command_layout_witness:
  "make_raw_command COMMAND_USER_QUERY example_time 7000 = ''02C00518030f0d072a0007'' \<and>
   length (make_raw_command COMMAND_USER_QUERY example_time 7000) = 6 + 16 \<and>
   substr (make_raw_command COMMAND_USER_QUERY example_time 7000) 6 2 = ''18'' \<and>
   substr (make_raw_command COMMAND_USER_QUERY example_time 7000) 18 4 = ''0007''"
  using query_command_layout [of example_time 7000]
  by (simp add: example_time_def make_raw_command_def append_time_string_def
      COMMAND_USER_QUERY_def format_hex_num_def to_hex.simps hex_digit_def)

text \<open>
  The specification counts 14 characters after the opcode. The millisecond field has
  four characters, not two, so there are 16.
\<close>

theorem query_command_length_counterexample:
  "make_raw_command COMMAND_USER_QUERY example_time 7000 = ''02C005'' @ ''18030f0d072a0007'' \<and>
   length (drop 6 (make_raw_command COMMAND_USER_QUERY example_time 7000)) \<noteq> 14"
  by (simp add: example_time_def make_raw_command_def append_time_string_def
      COMMAND_USER_QUERY_def format_hex_num_def to_hex.simps hex_digit_def)

subsection \<open>The set-time command\<close>

lemma word_of_int_pred: "1 \<le> n \<Longrightarrow> (word_of_int (int n - 1) :: size_t) = of_nat (n - 1)"
proof -
  assume "1 \<le> n"
  then have "int n - 1 = int (n - 1)" by simp
  then show ?thesis by (simp only: of_int_of_nat_eq)
qed

lemma format_week_day_eq:
  "1 \<le> n \<Longrightarrow> format_week_day (int n) = format_hex_num (of_nat (n - 1)) False"
  by (simp add: format_week_day_def word_of_int_pred)

text \<open>
  Claim C5, as the source has it. For every local time with a weekday from 1 to 7 and
  month, day, hour, minute and second that fit in eight bits, the set-time command is the
  opcode \<^verbatim>\<open>09A001\<close> followed by seven fields of two characters: the weekday, encoded as
  \<open>format_hex_num (day_of_week - 1)\<close> without the flag, then hour, minute, second, year
  modulo 100, month and day; there is no millisecond field. For the weekday 3 the weekday
  field is \<^verbatim>\<open>02\<close>.
\<close>

theorem set_time_command_layout:
  assumes "1 \<le> day_of_week t" and "day_of_week t \<le> 7"
    and "month t < 256" and "day_of_month t < 256" and "hour t < 256"
    and "minute t < 256" and "second t < 256"
  shows "length (set_time_buffer t) = 6 + 14 \<and>
    substr (set_time_buffer t) 0 6 = ''09A001'' \<and>
    substr (set_time_buffer t) 6 2 = format_hex_num (of_nat (day_of_week t - 1)) False \<and>
    substr (set_time_buffer t) 8 2 = format_hex_num (of_nat (hour t)) False \<and>
    substr (set_time_buffer t) 10 2 = format_hex_num (of_nat (minute t)) False \<and>
    substr (set_time_buffer t) 12 2 = format_hex_num (of_nat (second t)) False \<and>
    substr (set_time_buffer t) 14 2 = format_hex_num (of_nat (year t mod 100)) False \<and>
    substr (set_time_buffer t) 16 2 = format_hex_num (of_nat (month t)) False \<and>
    substr (set_time_buffer t) 18 2 = format_hex_num (of_nat (day_of_month t)) False \<and>
    parse_hex (substr (set_time_buffer t) 6 2) = Some (day_of_week t - 1) \<and>
    (day_of_week t = 3 \<longrightarrow> substr (set_time_buffer t) 6 2 = ''02'')"
proof -
  let ?w = "format_hex_num (of_nat (day_of_week t - 1)) False"
  let ?y = "format_hex_num (of_nat (year t mod 100)) False"
  let ?mo = "format_hex_num (of_nat (month t)) False"
  let ?d = "format_hex_num (of_nat (day_of_month t)) False"
  let ?h = "format_hex_num (of_nat (hour t)) False"
  let ?mi = "format_hex_num (of_nat (minute t)) False"
  let ?s = "format_hex_num (of_nat (second t)) False"
  let ?cmd = "set_time_buffer t"
  have cmd: "?cmd = ''09A001'' @ ?w @ ?h @ ?mi @ ?s @ ?y @ ?mo @ ?d"
    using assms(1)
    by (simp add: set_time_buffer_def append_set_time_string_def COMMAND_SET_TIME_def Let_def
        format_week_day_eq)
  have op: "length ''09A001'' = 6" by simp
  have w: "length ?w = 2" using assms(2) by (intro length_field) simp
  have y: "length ?y = 2" by (rule length_field) simp
  have mo: "length ?mo = 2" using assms(3) by (rule length_field)
  have d: "length ?d = 2" using assms(4) by (rule length_field)
  have h: "length ?h = 2" using assms(5) by (rule length_field)
  have mi: "length ?mi = 2" using assms(6) by (rule length_field)
  have s: "length ?s = 2" using assms(7) by (rule length_field)
  note f = fields7 [OF op w h mi s y mo, of ?d, folded cmd]
  have len: "length ?cmd = 6 + 14"
    unfolding cmd using w y mo d h mi s by simp
  have last: "substr ?cmd 18 2 = ?d"
    using f(8) d by (simp add: substr_def)
  have pw: "parse_hex ?w = Some (day_of_week t - 1)"
    using assms(2) by (intro parse_field) simp
  have three: "day_of_week t = 3 \<longrightarrow> ?w = ''02''"
    by (simp add: format_hex_num_def to_hex.simps hex_digit_def)
  show ?thesis
    using len f(1-7) last pw three by simp
qed

theorem set_time_command_layout_witness:
  "set_time_buffer example_time = ''09A001020d072a18030f'' \<and>
   day_of_week example_time = 3 \<and>
   substr (set_time_buffer example_time) 6 2 = ''02'' \<and>
   length (set_time_buffer example_time) = 6 + 14"
  using set_time_command_layout [of example_time]
  by (simp add: example_time_def set_time_buffer_def append_set_time_string_def
      format_week_day_def COMMAND_SET_TIME_def format_hex_num_def to_hex.simps hex_digit_def)

text \<open>
  The specification gives \<^verbatim>\<open>01\<close> as the weekday field for the weekday 3; the source
  renders 3 - 1 = 2.
\<close>

theorem set_time_weekday_counterexample:
  "day_of_week example_time = 3 \<and> format_week_day 3 = ''02'' \<and>
   substr (set_time_buffer example_time) 6 2 \<noteq> ''01''"
  by (simp add: example_time_def set_time_buffer_def append_set_time_string_def substr_def
      format_week_day_def COMMAND_SET_TIME_def format_hex_num_def to_hex.simps hex_digit_def)

section \<open>Properties of the state machine\<close>

subsection \<open>Helper facts\<close>

lemma str_find_zero: "str_find s pat = Some 0 \<longleftrightarrow> take (length pat) s = pat"
  by (cases s) auto

lemma plain_decrypt_encrypt: "plain_decrypt (plain_encrypt s) = s"
  by (induction s) (simp_all add: plain_encrypt_def plain_decrypt_def unat_of_nat)

lemma length_append_time_string:
  assumes "month t < 256" and "day_of_month t < 256" and "hour t < 256"
    and "minute t < 256" and "second t < 256" and "usec < 1000000"
  shows "length (append_time_string t usec) = 16"
proof -
  have "length (format_hex_num (of_nat (year t mod 100)) False) = 2"
    by (rule length_field) simp
  then show ?thesis
    using assms by (simp add: append_time_string_def Let_def length_field length_msec)
qed

lemma is_hex_string_append_time_string: "is_hex_string (append_time_string t usec)"
  by (simp add: append_time_string_def Let_def is_hex_string_append is_hex_string_format_hex_num)

subsection \<open>Disconnect\<close>

text \<open>
  Claim C1, as the source has it. A disconnect event, in any state and for any reason,
  leaves the session in \<open>IDLE\<close> with the write-characteristic handle and the
  MTU-negotiated flag at their initial values (0 and false), and calls \<open>on_disconnected\<close>
  exactly once and nothing else. The message, and with it the remembered last-sent
  command, is left as it was, and so is the notify-characteristic handle.
\<close>

theorem disconnect_resets_session:
  "gattc_event_handler w (ESP_GATTC_DISCONNECT_EVT reason) s =
     Inr (s\<lparr>has_mtu_change := False, node_state := IDLE, write_char_handle := 0\<rparr>,
          [OnDisconnected]) \<and>
   node_state (s\<lparr>has_mtu_change := False, node_state := IDLE, write_char_handle := 0\<rparr>) = IDLE \<and>
   write_char_handle (s\<lparr>has_mtu_change := False, node_state := IDLE, write_char_handle := 0\<rparr>)
     = write_char_handle init_session \<and>
   has_mtu_change (s\<lparr>has_mtu_change := False, node_state := IDLE, write_char_handle := 0\<rparr>)
     = has_mtu_change init_session \<and>
   message (s\<lparr>has_mtu_change := False, node_state := IDLE, write_char_handle := 0\<rparr>)
     = message s \<and>
   notify_char_handle (s\<lparr>has_mtu_change := False, node_state := IDLE, write_char_handle := 0\<rparr>)
     = notify_char_handle s \<and>
   (case gattc_event_handler w (ESP_GATTC_DISCONNECT_EVT reason) s of
      Inl e \<Rightarrow> False
    | Inr (s', fx) \<Rightarrow> count_list fx OnDisconnected = 1 \<and> length fx = 1)"
  by (simp add: init_session_def)

text \<open>
  After discovery, subscription and MTU negotiation the user query has been sent; the
  disconnect that follows leaves \<^verbatim>\<open>02C005\<close> as the remembered command, which is not its
  initial value, the empty string.
\<close>

theorem disconnect_keeps_last_command_counterexample:
  "map_option (\<lambda>s. raw_command (message s))
     (final_session init_session
       [(example_env, ESP_GATTC_SEARCH_CMPL_EVT),
        (example_env, ESP_GATTC_REG_FOR_NOTIFY_EVT),
        (example_env, ESP_GATTC_CFG_MTU_EVT 512),
        (example_env, ESP_GATTC_DISCONNECT_EVT 8)]) = Some ''02C005'' \<and>
   raw_command (message init_session) = []"
  by code_simp

subsection \<open>Sending a command\<close>

text \<open>
  Claim C4, as the source has it. For every command, handshake or not, \<open>send_command\<close>
  encrypts and writes the command of the caller followed by the timestamp of
  \<open>append_time_string\<close>, which has 16 hexadecimal characters for a calendar time, so the
  plaintext is never the command alone; what it remembers as the last-sent command is the
  command of the caller without the timestamp.
\<close>

theorem send_command_appends_timestamp:
  assumes "month local < 256" and "day_of_month local < 256" and "hour local < 256"
    and "minute local < 256" and "second local < 256" and "gettimeofday_usec w < 1000000"
  shows "send_command w local s command =
      (s\<lparr>message := \<lparr>bytes = crypto_encrypt w
                    (command @ append_time_string local (gettimeofday_usec w)),
                raw_command = command\<rparr>\<rparr>,
       [GattcWriteChar (write_char_handle s)
          (crypto_encrypt w (command @ append_time_string local (gettimeofday_usec w)))]) \<and>
    length (append_time_string local (gettimeofday_usec w)) = 16 \<and>
    is_hex_string (append_time_string local (gettimeofday_usec w)) \<and>
    command @ append_time_string local (gettimeofday_usec w) \<noteq> command"
proof -
  have len: "length (append_time_string local (gettimeofday_usec w)) = 16"
    using assms by (rule length_append_time_string)
  then have "append_time_string local (gettimeofday_usec w) \<noteq> []" by auto
  with len show ?thesis
    by (simp add: send_command_def make_raw_command_def Let_def is_hex_string_append_time_string)
qed

theorem send_command_appends_timestamp_witness:
  "send_command example_env example_time (init_session\<lparr>write_char_handle := 40\<rparr>) ''05020440'' =
     (init_session\<lparr>write_char_handle := 40,
        message := \<lparr>bytes = plain_encrypt ''0502044018030f0d072a0007'',
                    raw_command = ''05020440''\<rparr>\<rparr>,
      [GattcWriteChar 40 (plain_encrypt ''0502044018030f0d072a0007'')]) \<and>
   append_time_string example_time (gettimeofday_usec example_env) = ''18030f0d072a0007''"
  using send_command_appends_timestamp
    [of example_time example_env "init_session\<lparr>write_char_handle := 40\<rparr>" "''05020440''"]
  by (simp add: example_env_def example_time_def append_time_string_def format_hex_num_def
      to_hex.simps hex_digit_def)

text \<open>
  A command that is neither of the handshake commands is not transmitted unchanged.
\<close>

theorem send_command_passthrough_counterexample:
  "snd (send_command example_env example_time (init_session\<lparr>write_char_handle := 40\<rparr>)
      ''05020440'') \<noteq>
   [GattcWriteChar 40 (crypto_encrypt example_env ''05020440'')]"
  by code_simp

subsection \<open>Notifications\<close>

text \<open>
  Claim C6. For every notification on the notify characteristic: when the decrypted text
  begins with \<^verbatim>\<open>0cc0060505\<close>, the callback makes exactly one call, the write of the
  encrypted set-user-key command \<^verbatim>\<open>02C001\<close> (which becomes the remembered command), and
  does not call \<open>on_notify\<close>; otherwise it makes exactly one call, \<open>on_notify\<close> with the
  decrypted text, sends nothing and leaves the session as it was.
\<close>

theorem notification_dispatch:
  "h = notify_char_handle s \<Longrightarrow>
   (starts_with (crypto_decrypt w data) ''0cc0060505'' \<longrightarrow>
      gattc_event_handler w (ESP_GATTC_NOTIFY_EVT h data) s =
        Inr (s\<lparr>message := \<lparr>bytes = crypto_encrypt w
                    (make_raw_command ''02C001'' (time_now w) (gettimeofday_usec w)),
                  raw_command = ''02C001''\<rparr>\<rparr>,
             [GattcWriteChar (write_char_handle s)
                (crypto_encrypt w (make_raw_command ''02C001'' (time_now w) (gettimeofday_usec w)))])) \<and>
   (\<not> starts_with (crypto_decrypt w data) ''0cc0060505'' \<longrightarrow>
      gattc_event_handler w (ESP_GATTC_NOTIFY_EVT h data) s =
        Inr (s, [OnNotify (crypto_decrypt w data)]))"
  by (simp add: str_find_zero decode_value_def NOTIFY_MESSAGE_PHONE_USER_def send_command_def
      COMMAND_SET_USER_KEY_def Let_def starts_with_def)

theorem notification_dispatch_witness:
  "starts_with (crypto_decrypt example_env (plain_encrypt ''0cc0060505ab'')) ''0cc0060505'' \<and>
   gattc_event_handler example_env (ESP_GATTC_NOTIFY_EVT 42 (plain_encrypt ''0cc0060505ab''))
     (init_session\<lparr>notify_char_handle := 42, write_char_handle := 40\<rparr>) =
     Inr (init_session\<lparr>notify_char_handle := 42, write_char_handle := 40,
            message := \<lparr>bytes = plain_encrypt ''02C00118030f0d072a0007'',
                        raw_command = ''02C001''\<rparr>\<rparr>,
          [GattcWriteChar 40 (plain_encrypt ''02C00118030f0d072a0007'')]) \<and>
   \<not> starts_with (crypto_decrypt example_env (plain_encrypt ''0512'')) ''0cc0060505'' \<and>
   gattc_event_handler example_env (ESP_GATTC_NOTIFY_EVT 42 (plain_encrypt ''0512''))
     (init_session\<lparr>notify_char_handle := 42, write_char_handle := 40\<rparr>) =
     Inr (init_session\<lparr>notify_char_handle := 42, write_char_handle := 40\<rparr>, [OnNotify ''0512''])"
  using notification_dispatch
    [of 42 "init_session\<lparr>notify_char_handle := 42, write_char_handle := 40\<rparr>" example_env
      "plain_encrypt ''0cc0060505ab''"]
    notification_dispatch
    [of 42 "init_session\<lparr>notify_char_handle := 42, write_char_handle := 40\<rparr>" example_env
      "plain_encrypt ''0512''"]
  by (simp add: example_env_def example_time_def plain_decrypt_encrypt
      starts_with_def make_raw_command_def append_time_string_def format_hex_num_def
      to_hex.simps hex_digit_def)

text \<open>
  Claim C9. A notification whose handle is not the stored notify-characteristic handle
  is ignored: the callback makes no call at all (no \<open>on_notify\<close>, no write), the session
  is unchanged, and the outcome is the same whatever the decryption function is, so the
  payload is not looked at. The witness is a notification on the write characteristic.
\<close>

theorem foreign_notification_ignored:
  "h \<noteq> notify_char_handle s \<Longrightarrow>
     gattc_event_handler w (ESP_GATTC_NOTIFY_EVT h data) s = Inr (s, []) \<and>
     gattc_event_handler (w\<lparr>crypto_decrypt := d\<rparr>) (ESP_GATTC_NOTIFY_EVT h data) s = Inr (s, [])"
  by simp

theorem foreign_notification_ignored_witness:
  "write_char_handle (init_session\<lparr>notify_char_handle := 42, write_char_handle := 40\<rparr>) \<noteq>
     notify_char_handle (init_session\<lparr>notify_char_handle := 42, write_char_handle := 40\<rparr>) \<and>
   gattc_event_handler example_env (ESP_GATTC_NOTIFY_EVT 40 (plain_encrypt ''0cc0060505''))
     (init_session\<lparr>notify_char_handle := 42, write_char_handle := 40\<rparr>) =
     Inr (init_session\<lparr>notify_char_handle := 42, write_char_handle := 40\<rparr>, [])"
  using foreign_notification_ignored
    [of 40 "init_session\<lparr>notify_char_handle := 42, write_char_handle := 40\<rparr>" example_env
      "plain_encrypt ''0cc0060505''" plain_decrypt]
  by simp

subsection \<open>Connect\<close>

text \<open>
  Claim C10. \<open>connect\<close> never changes the session; when the transport reports that it
  is connected it makes no call, and it calls the transport's connect exactly when the
  transport reports that it is not connected.
\<close>

theorem connect_only_when_not_connected:
  "connect True s = (s, []) \<and> connect False s = (s, [ParentConnect]) \<and>
   fst (connect parent_connected s) = s \<and>
   (ParentConnect \<in> set (snd (connect parent_connected s))) = (\<not> parent_connected)"
  by (simp add: connect_def)

subsection \<open>Writes in flight\<close>

text \<open>
  Claim C8, as the source has it. The state machine keeps no record of a write in flight.
  What holds is a bound for each callback: whatever the event and the session, a callback
  that returns issues at most one characteristic write.
\<close>

theorem at_most_one_write_per_event:
  "gattc_event_handler w ev s = Inr (s', fx) \<Longrightarrow> length (filter is_write fx) \<le> 1"
  by (cases ev)
    (auto simp add: send_command_def send_set_time_def search_cmpl_notify_def
      search_cmpl_write_def Let_def split: if_splits option.splits sum.splits prod.splits)

theorem at_most_one_write_per_event_witness:
  "gattc_event_handler example_env (ESP_GATTC_CFG_MTU_EVT 512)
     (init_session\<lparr>notify_char_handle := 42, write_char_handle := 40\<rparr>) =
     Inr (init_session\<lparr>notify_char_handle := 42, write_char_handle := 40, has_mtu_change := True,
            message := \<lparr>bytes = plain_encrypt ''02C00518030f0d072a0007'',
                        raw_command = ''02C005''\<rparr>\<rparr>,
          [GattcWriteChar 40 (plain_encrypt ''02C00518030f0d072a0007'')]) \<and>
   length (filter is_write [GattcWriteChar 40 (plain_encrypt ''02C00518030f0d072a0007'')]) \<le> 1"
  using at_most_one_write_per_event
    [of example_env "ESP_GATTC_CFG_MTU_EVT 512"
      "init_session\<lparr>notify_char_handle := 42, write_char_handle := 40\<rparr>"
      "init_session\<lparr>notify_char_handle := 42, write_char_handle := 40, has_mtu_change := True,
            message := \<lparr>bytes = plain_encrypt ''02C00518030f0d072a0007'',
                        raw_command = ''02C005''\<rparr>\<rparr>"
      "[GattcWriteChar 40 (plain_encrypt ''02C00518030f0d072a0007'')]"]
  by (simp add: example_env_def example_time_def init_session_def WANTED_MTU_def
      send_command_def Let_def COMMAND_USER_QUERY_def make_raw_command_def append_time_string_def
      format_hex_num_def to_hex.simps hex_digit_def)

text \<open>
  Both characteristics are subscribed, so two subscription confirmations arrive. When the
  second arrives after the MTU result, the user query is written a second time while the
  first write has not been acknowledged.
\<close>

theorem write_before_acknowledgement_counterexample:
  "\<not> single_outstanding False
       (observe init_session
         [(example_env, ESP_GATTC_SEARCH_CMPL_EVT),
          (example_env, ESP_GATTC_REG_FOR_NOTIFY_EVT),
          (example_env, ESP_GATTC_CFG_MTU_EVT 512),
          (example_env, ESP_GATTC_REG_FOR_NOTIFY_EVT)])"
  by code_simp

text \<open>
  When every acknowledgement arrives before the next event that writes, the handshake
  keeps the discipline and ends in \<open>ESTABLISHED\<close>.
\<close>

lemma handshake_single_outstanding:
  "single_outstanding False
       (observe init_session
         [(example_env, ESP_GATTC_SEARCH_CMPL_EVT),
          (example_env, ESP_GATTC_REG_FOR_NOTIFY_EVT),
          (example_env, ESP_GATTC_CFG_MTU_EVT 512),
          (example_env, ESP_GATTC_WRITE_CHAR_EVT),
          (example_env, ESP_GATTC_NOTIFY_EVT 42 (plain_encrypt ''0cc0060505'')),
          (example_env, ESP_GATTC_WRITE_CHAR_EVT),
          (example_env, ESP_GATTC_WRITE_CHAR_EVT)])"
  by code_simp

lemma handshake_established:
  "map_option node_state (final_session init_session
         [(example_env, ESP_GATTC_SEARCH_CMPL_EVT),
          (example_env, ESP_GATTC_REG_FOR_NOTIFY_EVT),
          (example_env, ESP_GATTC_CFG_MTU_EVT 512),
          (example_env, ESP_GATTC_WRITE_CHAR_EVT),
          (example_env, ESP_GATTC_NOTIFY_EVT 42 (plain_encrypt ''0cc0060505'')),
          (example_env, ESP_GATTC_WRITE_CHAR_EVT),
          (example_env, ESP_GATTC_WRITE_CHAR_EVT)]) = Some ESTABLISHED"
  by code_simp

end
